theory Spec2Isabelle
  imports Main
begin

section \<open>Values of the browser notification manager\<close>

text \<open>
  The development embeds \<^verbatim>\<open>static/browser_notifications.js\<close>, the class
  \<^verbatim>\<open>BrowserNotificationManager\<close>. JavaScript strings that hold plain text are
  \<open>string\<close>; the pictographs that the source writes in front of log lines and titles
  are left out of those texts. The pictographs used as icons are values of their own
  (\<open>glyph\<close>), since the code compares them and measures their length.
  Notification identifiers and job identifiers are integers, as the gateway sends
  them; \<open>null\<close> and \<open>undefined\<close> are \<open>None\<close>.

  Every method is a function from the world before the call to the world after it.
  What the method awaits comes in as an argument: the outcome of the fetch, the answer
  to the permission request, whether an audio context could be built, the clock. The
  code between two \<^verbatim>\<open>await\<close>s runs without interruption, and so does each
  function of the model; a method that others may overtake while it waits is given in
  two parts, \<open>_begin\<close> and \<open>_resume\<close>. The calls into the platform that the source
  does not guard (constructing a notification, drawing the icon, the oscillator) are
  taken to return. Of the options of a notification the constant ones are left out
  (\<^verbatim>\<open>requireInteraction\<close>, \<^verbatim>\<open>silent\<close>, \<^verbatim>\<open>vibrate\<close>, \<^verbatim>\<open>actions\<close>), and so is the click
  handler, which no method of the manager calls.
\<close>

datatype glyph = Bell | Flame | Bolt | Briefcase | AlarmClock | CheckMark | LightBulb

text \<open>
  The value of \<^verbatim>\<open>icons[type] || bell\<close> is a glyph, or, for a key that the object
  literal inherits from \<^verbatim>\<open>Object.prototype\<close>, that inherited member.
\<close>

datatype icon_val = Glyph glyph | ProtoMember string

text \<open>Length of a glyph in UTF-16 code units, which is what \<^verbatim>\<open>icon.length\<close> reads.\<close>

fun glyph_length :: "glyph \<Rightarrow> nat" where
  "glyph_length Bell = 2"
| "glyph_length Flame = 2"
| "glyph_length Bolt = 1"
| "glyph_length Briefcase = 2"
| "glyph_length AlarmClock = 1"
| "glyph_length CheckMark = 1"
| "glyph_length LightBulb = 2"

text \<open>
  The names every object literal inherits from \<^verbatim>\<open>Object.prototype\<close>, each with the
  \<^verbatim>\<open>length\<close> of the member (the arity of the function; the prototype object has none).
\<close>

definition object_prototype_members :: "(string \<times> nat option) list" where
  "object_prototype_members =
     [(''constructor'', Some 1), (''toString'', Some 0), (''toLocaleString'', Some 0),
      (''valueOf'', Some 0), (''hasOwnProperty'', Some 1), (''isPrototypeOf'', Some 1),
      (''propertyIsEnumerable'', Some 1), (''__defineGetter__'', Some 2),
      (''__defineSetter__'', Some 2), (''__lookupGetter__'', Some 1),
      (''__lookupSetter__'', Some 1), (''__proto__'', None)]"

fun icon_length :: "icon_val \<Rightarrow> nat option" where
  "icon_length (Glyph g) = Some (glyph_length g)"
| "icon_length (ProtoMember k) = (case map_of object_prototype_members k of
       None \<Rightarrow> None | Some l \<Rightarrow> l)"

text \<open>One element of \<^verbatim>\<open>data.notifications\<close>.\<close>

record notif =
  notification_id :: int
  title :: string
  message :: string
  type :: string
  job_id :: "int option"

text \<open>
  What a poll receives: \<^verbatim>\<open>fetch\<close> rejects, or \<^verbatim>\<open>response.json()\<close> rejects (also
  standing for a body that is \<^verbatim>\<open>null\<close>, where reading \<^verbatim>\<open>data.success\<close> throws), or a
  body with the truth value of \<^verbatim>\<open>data.success\<close> and \<^verbatim>\<open>data.notifications\<close>, which is
  \<open>None\<close> when the body has no such array.
\<close>

datatype fetch_outcome =
    NetworkError
  | MalformedBody
  | Data bool "notif list option"

text \<open>The \<^verbatim>\<open>data\<close> member of the argument of \<^verbatim>\<open>showNotification\<close>.\<close>

record notification_data =
  data_notification_id :: "int option"
  data_job_id :: "int option"
  data_url :: "string option"

text \<open>The argument object of \<^verbatim>\<open>showNotification\<close>.\<close>

record show_args =
  arg_title :: string
  arg_body :: string
  arg_icon :: "icon_val option"
  arg_tag :: "string option"
  arg_data :: notification_data

datatype icon_src = StaticPath string | DataURL icon_val | RawIcon icon_val

record notification_options =
  opt_body :: string
  opt_icon :: icon_src
  opt_badge :: string
  opt_tag :: string
  opt_data :: notification_data

text \<open>Everything the manager does to the console, the network, the page and the platform.\<close>

datatype event =
    Log string
  | Warn string
  | Error string
  | Fetch string
  | NewNotification string notification_options
  | PlaySound
  | SetTimeout nat nat
  | SetInterval nat nat
  | ClearInterval nat
  | InsertHTML string

text \<open>
  The fields of the manager, and beside them the part of the page that the manager
  acts on: the interval timers that are live (handle and period), the next timer
  handle of the window, whether the permission prompt is in the document, and the
  trace of events so far.
\<close>

record world =
  permission :: string
  checkInterval :: nat
  lastNotificationId :: "int option"
  notificationSound :: bool
  monitoringInterval :: "nat option"
  intervals :: "(nat \<times> nat) list"
  next_timer :: nat
  prompt_present :: bool
  trace :: "event list"

section \<open>Platform operations\<close>

definition emit :: "event \<Rightarrow> world \<Rightarrow> world" where
  "emit e w = w\<lparr>trace := trace w @ [e]\<rparr>"

definition setTimeout :: "nat \<Rightarrow> world \<Rightarrow> world" where
  "setTimeout ms w =
     emit (SetTimeout (next_timer w) ms) (w\<lparr>next_timer := next_timer w + 1\<rparr>)"

definition setInterval :: "nat \<Rightarrow> world \<Rightarrow> nat \<times> world" where
  "setInterval ms w =
     (next_timer w,
      emit (SetInterval (next_timer w) ms)
        (w\<lparr>intervals := intervals w @ [(next_timer w, ms)],
           next_timer := next_timer w + 1\<rparr>))"

definition clearInterval :: "nat \<Rightarrow> world \<Rightarrow> world" where
  "clearInterval h w =
     emit (ClearInterval h) (w\<lparr>intervals := filter (\<lambda>t. fst t \<noteq> h) (intervals w)\<rparr>)"

section \<open>Decimal text of an identifier, for template strings\<close>

definition digit_char :: "nat \<Rightarrow> char" where
  "digit_char d = ''0123456789'' ! d"

function string_of_nat :: "nat \<Rightarrow> string" where
  "string_of_nat n =
     (if n < 10 then [digit_char n]
      else string_of_nat (n div 10) @ [digit_char (n mod 10)])"
  by pat_completeness auto
termination
  by (relation "measure id") auto

declare string_of_nat.simps [simp del]

definition string_of_int :: "int \<Rightarrow> string" where
  "string_of_int i =
     (if i < 0 then CHR ''-'' # string_of_nat (nat (- i)) else string_of_nat (nat i))"

text \<open>\<^verbatim>\<open>job_id ? `/jobs#job-${job_id}` : '/jobs'\<close>: identifier 0 is falsy, like \<open>null\<close>.\<close>

definition job_url :: "int option \<Rightarrow> string" where
  "job_url j = (case j of
       None \<Rightarrow> ''/jobs''
     | Some k \<Rightarrow> if k = 0 then ''/jobs'' else ''/jobs#job-'' @ string_of_int k)"

section \<open>The manager\<close>

subsection \<open>Sound\<close>

text \<open>\<open>audio_ok\<close> tells whether the page could construct an audio context.\<close>

definition createNotificationSound :: "bool \<Rightarrow> world \<Rightarrow> world" where
  "createNotificationSound audio_ok w =
     (if audio_ok then w\<lparr>notificationSound := True\<rparr>
      else emit (Warn ''Could not create notification sound:'') w)"

definition playSound :: "world \<Rightarrow> world" where
  "playSound w = (if notificationSound w then emit PlaySound w else w)"

subsection \<open>showNotification\<close>

definition options_icon :: "icon_val option \<Rightarrow> icon_src" where
  "options_icon icon =
     (let base =
            (if icon = Some (Glyph Bell) then StaticPath ''/static/icon-bell.png''
             else (case icon of
                     None \<Rightarrow> StaticPath ''/static/icon-job.png''
                   | Some v \<Rightarrow> RawIcon v))
      in (case icon of
            None \<Rightarrow> base
          | Some v \<Rightarrow>
              (case icon_length v of
                 None \<Rightarrow> base
               | Some l \<Rightarrow> if l \<le> 2 then DataURL v else base)))"

definition make_options :: "show_args \<Rightarrow> notification_options" where
  "make_options a =
     \<lparr>opt_body = arg_body a,
      opt_icon = options_icon (arg_icon a),
      opt_badge = ''/static/badge.png'',
      opt_tag = (case arg_tag a of None \<Rightarrow> ''job-notification''
                 | Some t \<Rightarrow> if t = [] then ''job-notification'' else t),
      opt_data = arg_data a\<rparr>"

definition showNotification :: "show_args \<Rightarrow> world \<Rightarrow> world" where
  "showNotification a w =
     (if permission w \<noteq> ''granted''
      then emit (Log ''Cannot show notification - permission not granted'') w
      else
        let w1 = emit (NewNotification (arg_title a) (make_options a)) w;
            w2 = playSound w1
        in setTimeout 10000 w2)"

definition empty_data :: notification_data where
  "empty_data = \<lparr>data_notification_id = None, data_job_id = None, data_url = None\<rparr>"

definition showTestNotification :: "world \<Rightarrow> world" where
  "showTestNotification w =
     showNotification
       \<lparr>arg_title = ''Notifications Enabled!'',
        arg_body = ''You'' @ [CHR 0x27] @ ''ll now receive alerts for new jobs and urgent deadlines'',
        arg_icon = Some (Glyph Bell),
        arg_tag = Some ''test-notification'',
        arg_data = empty_data\<rparr> w"

subsection \<open>Polling\<close>

text \<open>The icon of a fetched item, lines 379 to 382.\<close>

definition notif_icon :: "string \<Rightarrow> glyph" where
  "notif_icon t =
     (if t = ''critical'' then Flame
      else if t = ''urgent'' then Bolt
      else if t = ''new_job'' then Briefcase
      else Bell)"

text \<open>
  The test \<^verbatim>\<open>this.lastNotificationId && notif.notification_id <= this.lastNotificationId\<close>:
  \<open>null\<close> and 0 are falsy.
\<close>

definition already_shown :: "int option \<Rightarrow> int \<Rightarrow> bool" where
  "already_shown wm i = (case wm of None \<Rightarrow> False | Some m \<Rightarrow> m \<noteq> 0 \<and> i \<le> m)"

definition notif_args :: "notif \<Rightarrow> show_args" where
  "notif_args n =
     \<lparr>arg_title = title n,
      arg_body = message n,
      arg_icon = Some (Glyph (notif_icon (type n))),
      arg_tag = Some (''notification-'' @ string_of_int (notification_id n)),
      arg_data = \<lparr>data_notification_id = Some (notification_id n),
                  data_job_id = job_id n,
                  data_url = Some (job_url (job_id n))\<rparr>\<rparr>"

text \<open>The callback of \<^verbatim>\<open>notifications.forEach\<close>.\<close>

definition show_if_new :: "notif \<Rightarrow> world \<Rightarrow> world" where
  "show_if_new n w =
     (if already_shown (lastNotificationId w) (notification_id n) then w
      else showNotification (notif_args n) w)"

definition api_url :: string where
  "api_url = ''/api/notifications?unread_only=true&limit=5''"

text \<open>
  A poll in two parts: the part that runs until \<^verbatim>\<open>await fetch\<close>, and the part that
  runs once the outcome is there. \<^verbatim>\<open>Math.max\<close> over the identifiers of a batch that
  is not empty is a fold of \<open>max\<close>.
\<close>

definition checkForNewNotifications_begin :: "world \<Rightarrow> world" where
  "checkForNewNotifications_begin w = emit (Fetch api_url) w"

definition checkForNewNotifications_resume :: "fetch_outcome \<Rightarrow> world \<Rightarrow> world" where
  "checkForNewNotifications_resume r w =
     (case r of
        NetworkError \<Rightarrow> emit (Error ''Error checking notifications:'') w
      | MalformedBody \<Rightarrow> emit (Error ''Error checking notifications:'') w
      | Data success ns \<Rightarrow>
          if \<not> success then w
          else
            (case ns of
               None \<Rightarrow> emit (Error ''Error checking notifications:'') w
             | Some notifications \<Rightarrow>
                 let w1 = fold show_if_new notifications w
                 in (case notifications of
                       [] \<Rightarrow> w1
                     | n # rest \<Rightarrow>
                         w1\<lparr>lastNotificationId :=
                              Some (fold max (map notification_id rest) (notification_id n))\<rparr>)))"

definition checkForNewNotifications :: "fetch_outcome \<Rightarrow> world \<Rightarrow> world" where
  "checkForNewNotifications r w =
     checkForNewNotifications_resume r (checkForNewNotifications_begin w)"

subsection \<open>Monitoring\<close>

definition startMonitoring_begin :: "world \<Rightarrow> world" where
  "startMonitoring_begin w =
     checkForNewNotifications_begin (emit (Log ''Starting notification monitoring...'') w)"

definition startMonitoring_resume :: "fetch_outcome \<Rightarrow> world \<Rightarrow> world" where
  "startMonitoring_resume r w =
     (let w1 = checkForNewNotifications_resume r w;
          (h, w2) = setInterval (checkInterval w1) w1;
          w3 = w2\<lparr>monitoringInterval := Some h\<rparr>
      in emit (Log (''Monitoring every '' @ string_of_nat (checkInterval w3 div 1000) @ '' seconds'')) w3)"

definition startMonitoring :: "fetch_outcome \<Rightarrow> world \<Rightarrow> world" where
  "startMonitoring r w = startMonitoring_resume r (startMonitoring_begin w)"

text \<open>\<^verbatim>\<open>if (this.monitoringInterval)\<close>: \<open>undefined\<close> and the handle 0 are falsy.\<close>

definition stopMonitoring :: "world \<Rightarrow> world" where
  "stopMonitoring w =
     (case monitoringInterval w of
        None \<Rightarrow> w
      | Some h \<Rightarrow>
          if h = 0 then w
          else emit (Log ''Monitoring stopped'') (clearInterval h w))"

text \<open>
  The elapse of one interval period: every live interval timer fires once, and its
  callback is a poll. \<open>gw k\<close> is what the gateway answers to the \<open>k\<close>-th of them.
\<close>

definition elapse :: "(nat \<Rightarrow> fetch_outcome) \<Rightarrow> world \<Rightarrow> world" where
  "elapse gw w =
     fold (\<lambda>k. checkForNewNotifications (gw k)) [0..<length (intervals w)] w"

subsection \<open>Manual trigger\<close>

text \<open>The own keys of the object literal \<^verbatim>\<open>icons\<close>, lines 410 to 417.\<close>

definition icons :: "(string \<times> glyph) list" where
  "icons =
     [(''critical'', Flame), (''urgent'', Bolt), (''new_job'', Briefcase),
      (''deadline'', AlarmClock), (''success'', CheckMark), (''info'', LightBulb)]"

text \<open>\<^verbatim>\<open>icons[type] || bell\<close>: an own key, else an inherited member, else the bell.\<close>

definition trigger_icon :: "string \<Rightarrow> icon_val" where
  "trigger_icon t =
     (case map_of icons t of
        Some g \<Rightarrow> Glyph g
      | None \<Rightarrow>
          if t \<in> set (map fst object_prototype_members) then ProtoMember t
          else Glyph Bell)"

text \<open>\<open>now\<close> is the value of \<^verbatim>\<open>Date.now()\<close>.\<close>

definition triggerNotification ::
  "string \<Rightarrow> string \<Rightarrow> string \<Rightarrow> int option \<Rightarrow> nat \<Rightarrow> world \<Rightarrow> world" where
  "triggerNotification ty ttl msg jobId now w =
     showNotification
       \<lparr>arg_title = ttl,
        arg_body = msg,
        arg_icon = Some (trigger_icon ty),
        arg_tag = Some (''manual-'' @ string_of_nat now),
        arg_data = \<lparr>data_notification_id = None,
                    data_job_id = jobId,
                    data_url = Some (job_url jobId)\<rparr>\<rparr> w"

subsection \<open>Permission\<close>

definition showPermissionPrompt :: "world \<Rightarrow> world" where
  "showPermissionPrompt w = emit (InsertHTML ''notificationPrompt'') (w\<lparr>prompt_present := True\<rparr>)"

text \<open>The removal of the prompt, 300 ms later, is taken at once.\<close>

definition dismissPrompt :: "world \<Rightarrow> world" where
  "dismissPrompt w =
     (if prompt_present w then setTimeout 300 (w\<lparr>prompt_present := False\<rparr>) else w)"

definition showSuccessMessage :: "world \<Rightarrow> world" where
  "showSuccessMessage w = setTimeout 3000 (emit (InsertHTML ''Notifications Enabled!'') w)"

definition showDeniedMessage :: "world \<Rightarrow> world" where
  "showDeniedMessage w = setTimeout 5000 (emit (InsertHTML ''Notifications Blocked'') w)"

text \<open>
  What \<^verbatim>\<open>Notification.requestPermission()\<close> gives: the user's answer, or a rejection.
\<close>

datatype permission_response = Resolved string | Rejected

text \<open>
  \<^verbatim>\<open>startMonitoring\<close> is called without \<^verbatim>\<open>await\<close>: it runs until its fetch is issued,
  the test notification follows, and the rest of it runs when the outcome \<open>r\<close> arrives.
\<close>

definition requestPermission :: "permission_response \<Rightarrow> fetch_outcome \<Rightarrow> world \<Rightarrow> world" where
  "requestPermission resp r w =
     (case resp of
        Rejected \<Rightarrow> emit (Error ''Error requesting permission:'') w
      | Resolved p \<Rightarrow>
          let w1 = w\<lparr>permission := p\<rparr>
          in if p = ''granted'' then
               let w2 = emit (Log ''Notification permission granted!'') w1;
                   w3 = showSuccessMessage w2;
                   w4 = dismissPrompt w3;
                   w5 = startMonitoring_begin w4;
                   w6 = showTestNotification w5
               in startMonitoring_resume r w6
             else showDeniedMessage (emit (Log ''Notification permission denied'') w1))"

subsection \<open>Construction\<close>

text \<open>
  The assignments of the constructor; \<open>p\<close> is \<^verbatim>\<open>Notification.permission\<close>. On a platform
  without \<^verbatim>\<open>Notification\<close> that read throws and no manager exists, so the test for
  support in \<^verbatim>\<open>init\<close> always passes.
\<close>

definition constructor_fields :: "string \<Rightarrow> world" where
  "constructor_fields p =
     \<lparr>permission = p, checkInterval = 30000, lastNotificationId = None,
      notificationSound = False, monitoringInterval = None,
      intervals = [], next_timer = 1, prompt_present = False, trace = []\<rparr>"

definition init :: "bool \<Rightarrow> fetch_outcome \<Rightarrow> world \<Rightarrow> world" where
  "init audio_ok r w =
     (let w0 = emit (Log ''Initializing Browser Notifications...'') w
      in if permission w0 = ''default'' then
           createNotificationSound audio_ok (showPermissionPrompt w0)
         else if permission w0 = ''granted'' then
           startMonitoring_resume r
             (createNotificationSound audio_ok
                (startMonitoring_begin
                   (emit (Log ''Notification permission already granted'') w0)))
         else createNotificationSound audio_ok (emit (Log ''Notification permission denied'') w0))"

definition constructor :: "string \<Rightarrow> bool \<Rightarrow> fetch_outcome \<Rightarrow> world" where
  "constructor p audio_ok r = init audio_ok r (constructor_fields p)"

subsection \<open>Sequences of calls\<close>

datatype op =
    CheckForNewNotifications fetch_outcome
  | ShowNotification show_args
  | StartMonitoring fetch_outcome
  | StopMonitoring
  | TriggerNotification string string string "int option" nat
  | RequestPermission permission_response fetch_outcome
  | Elapse "nat \<Rightarrow> fetch_outcome"

fun apply_op :: "op \<Rightarrow> world \<Rightarrow> world" where
  "apply_op (CheckForNewNotifications r) w = checkForNewNotifications r w"
| "apply_op (ShowNotification a) w = showNotification a w"
| "apply_op (StartMonitoring r) w = startMonitoring r w"
| "apply_op StopMonitoring w = stopMonitoring w"
| "apply_op (TriggerNotification ty ttl msg j now) w = triggerNotification ty ttl msg j now w"
| "apply_op (RequestPermission resp r) w = requestPermission resp r w"
| "apply_op (Elapse gw) w = elapse gw w"

definition run :: "op list \<Rightarrow> world \<Rightarrow> world" where
  "run ops w = fold apply_op ops w"

fun writes_permission :: "op \<Rightarrow> bool" where
  "writes_permission (RequestPermission resp r) = True"
| "writes_permission _ = False"

subsection \<open>Reading a trace\<close>

fun displayed_id :: "event \<Rightarrow> int option" where
  "displayed_id (NewNotification t opts) = data_notification_id (opt_data opts)"
| "displayed_id _ = None"

definition displayed_ids :: "event list \<Rightarrow> int list" where
  "displayed_ids es = List.map_filter displayed_id es"

fun is_display :: "event \<Rightarrow> bool" where
  "is_display (NewNotification t opts) = True"
| "is_display PlaySound = True"
| "is_display _ = False"

fun is_fetch :: "event \<Rightarrow> bool" where
  "is_fetch (Fetch u) = True"
| "is_fetch _ = False"

fun is_log :: "event \<Rightarrow> bool" where
  "is_log (Log m) = True"
| "is_log (Warn m) = True"
| "is_log (Error m) = True"
| "is_log _ = False"

fun is_timer :: "event \<Rightarrow> bool" where
  "is_timer (SetTimeout h ms) = True"
| "is_timer (SetInterval h ms) = True"
| "is_timer _ = False"

definition fetch_count :: "world \<Rightarrow> nat" where
  "fetch_count w = length (filter is_fetch (trace w))"

text \<open>The events that a call adds to the trace.\<close>

definition new_events :: "(world \<Rightarrow> world) \<Rightarrow> world \<Rightarrow> event list" where
  "new_events f w = drop (length (trace w)) (trace (f w))"

text \<open>The order of watermarks: unset is below every identifier.\<close>

fun wm_le :: "int option \<Rightarrow> int option \<Rightarrow> bool" where
  "wm_le None y = True"
| "wm_le (Some a) None = False"
| "wm_le (Some a) (Some b) = (a \<le> b)"

text \<open>
  The identifiers of the batch a poll hands to \<^verbatim>\<open>forEach\<close>: those of a body with
  \<^verbatim>\<open>success\<close> and an array, none otherwise.
\<close>

fun fetched_ids :: "fetch_outcome \<Rightarrow> int list" where
  "fetched_ids (Data success (Some ns)) = (if success then map notification_id ns else [])"
| "fetched_ids _ = []"

text \<open>
  A poll fails when the fetch or the parse rejects, when the body says
  \<^verbatim>\<open>success: false\<close>, or when the body has no array of notifications. Of these, the
  ones that throw inside the \<^verbatim>\<open>try\<close> block are \<open>poll_threw\<close>.
\<close>

fun poll_failed :: "fetch_outcome \<Rightarrow> bool" where
  "poll_failed NetworkError = True"
| "poll_failed MalformedBody = True"
| "poll_failed (Data success ns) = (\<not> success \<or> ns = None)"

fun poll_threw :: "fetch_outcome \<Rightarrow> bool" where
  "poll_threw NetworkError = True"
| "poll_threw MalformedBody = True"
| "poll_threw (Data success ns) = (success \<and> ns = None)"

text \<open>The identifiers of a batch that pass the test of \<open>show_if_new\<close>.\<close>

definition fresh_ids :: "int option \<Rightarrow> int list \<Rightarrow> int list" where
  "fresh_ids wm ids = filter (\<lambda>i. \<not> already_shown wm i) ids"

text \<open>A sequence of poll ticks, and the identifiers one tick displays.\<close>

definition polls :: "fetch_outcome list \<Rightarrow> world \<Rightarrow> world" where
  "polls rs w = fold checkForNewNotifications rs w"

definition tick_displayed :: "fetch_outcome \<Rightarrow> world \<Rightarrow> int list" where
  "tick_displayed r w = displayed_ids (new_events (checkForNewNotifications r) w)"

section \<open>What each call leaves alone\<close>

lemmas platform_defs =
  emit_def setTimeout_def setInterval_def clearInterval_def playSound_def

lemma showNotification_fields:
  "permission (showNotification a w) = permission w"
  "checkInterval (showNotification a w) = checkInterval w"
  "lastNotificationId (showNotification a w) = lastNotificationId w"
  "notificationSound (showNotification a w) = notificationSound w"
  "monitoringInterval (showNotification a w) = monitoringInterval w"
  "intervals (showNotification a w) = intervals w"
  "prompt_present (showNotification a w) = prompt_present w"
  by (simp_all add: showNotification_def platform_defs Let_def)

lemma showNotification_trace:
  "trace (showNotification a w) = trace w @
     (if permission w \<noteq> ''granted''
      then [Log ''Cannot show notification - permission not granted'']
      else NewNotification (arg_title a) (make_options a) #
           (if notificationSound w then [PlaySound] else []) @
           [SetTimeout (next_timer w) 10000])"
  by (simp add: showNotification_def platform_defs Let_def)

lemma show_if_new_fields:
  "permission (show_if_new n w) = permission w"
  "checkInterval (show_if_new n w) = checkInterval w"
  "lastNotificationId (show_if_new n w) = lastNotificationId w"
  "notificationSound (show_if_new n w) = notificationSound w"
  "monitoringInterval (show_if_new n w) = monitoringInterval w"
  "intervals (show_if_new n w) = intervals w"
  "prompt_present (show_if_new n w) = prompt_present w"
  by (simp_all add: show_if_new_def showNotification_fields)

lemma fold_show_if_new_fields:
  "permission (fold show_if_new ns w) = permission w"
  "checkInterval (fold show_if_new ns w) = checkInterval w"
  "lastNotificationId (fold show_if_new ns w) = lastNotificationId w"
  "notificationSound (fold show_if_new ns w) = notificationSound w"
  "monitoringInterval (fold show_if_new ns w) = monitoringInterval w"
  "intervals (fold show_if_new ns w) = intervals w"
  "prompt_present (fold show_if_new ns w) = prompt_present w"
  by (induction ns arbitrary: w; simp add: show_if_new_fields)+

lemma check_begin_fields:
  "permission (checkForNewNotifications_begin w) = permission w"
  "checkInterval (checkForNewNotifications_begin w) = checkInterval w"
  "lastNotificationId (checkForNewNotifications_begin w) = lastNotificationId w"
  "notificationSound (checkForNewNotifications_begin w) = notificationSound w"
  "monitoringInterval (checkForNewNotifications_begin w) = monitoringInterval w"
  "intervals (checkForNewNotifications_begin w) = intervals w"
  "prompt_present (checkForNewNotifications_begin w) = prompt_present w"
  "next_timer (checkForNewNotifications_begin w) = next_timer w"
  "trace (checkForNewNotifications_begin w) = trace w @ [Fetch api_url]"
  by (simp_all add: checkForNewNotifications_begin_def emit_def)

lemma check_resume_fields:
  "permission (checkForNewNotifications_resume r w) = permission w"
  "checkInterval (checkForNewNotifications_resume r w) = checkInterval w"
  "notificationSound (checkForNewNotifications_resume r w) = notificationSound w"
  "monitoringInterval (checkForNewNotifications_resume r w) = monitoringInterval w"
  "intervals (checkForNewNotifications_resume r w) = intervals w"
  "prompt_present (checkForNewNotifications_resume r w) = prompt_present w"
  by (simp_all add: checkForNewNotifications_resume_def emit_def Let_def
        fold_show_if_new_fields show_if_new_fields
        split: fetch_outcome.splits option.splits list.splits)

lemma check_resume_watermark:
  "lastNotificationId (checkForNewNotifications_resume r w) =
     (case fetched_ids r of
        [] \<Rightarrow> lastNotificationId w
      | i # rest \<Rightarrow> Some (fold max rest i))"
  by (cases r rule: fetched_ids.cases)
     (simp_all add: checkForNewNotifications_resume_def emit_def Let_def
        fold_show_if_new_fields show_if_new_fields split: list.splits option.splits)

lemma check_resume_success_trace:
  "trace (checkForNewNotifications_resume (Data True (Some ns)) w) =
     trace (fold show_if_new ns w)"
  by (cases ns) (simp_all add: checkForNewNotifications_resume_def Let_def)

lemma check_fields:
  "permission (checkForNewNotifications r w) = permission w"
  "checkInterval (checkForNewNotifications r w) = checkInterval w"
  "notificationSound (checkForNewNotifications r w) = notificationSound w"
  "monitoringInterval (checkForNewNotifications r w) = monitoringInterval w"
  "intervals (checkForNewNotifications r w) = intervals w"
  "prompt_present (checkForNewNotifications r w) = prompt_present w"
  by (simp_all add: checkForNewNotifications_def check_resume_fields check_begin_fields)

lemma check_watermark:
  "lastNotificationId (checkForNewNotifications r w) =
     (case fetched_ids r of
        [] \<Rightarrow> lastNotificationId w
      | i # rest \<Rightarrow> Some (fold max rest i))"
  by (simp add: checkForNewNotifications_def check_resume_watermark check_begin_fields
        split: list.splits)

section \<open>The watermark across poll ticks\<close>

lemma fold_max_Max: "fold max rest (i::int) = Max (set (i # rest))"
  by (simp only: Max.set_eq_fold)

lemma check_watermark_Max:
  "lastNotificationId (checkForNewNotifications r w) =
     (if fetched_ids r = [] then lastNotificationId w
      else Some (Max (set (fetched_ids r))))"
  by (simp add: check_watermark fold_max_Max split: list.splits)

text \<open>
  C1. The watermark is meant never to decrease, and the test of \<open>show_if_new\<close> relies on
  that: it takes every identifier up to the watermark as shown. The assignment after
  the loop takes the largest identifier of the batch alone and leaves the watermark it
  had out of the maximum. A manager with permission granted polls the batch with the
  single identifier 7 and then the batch with the single identifier 3: the watermark is
  7 before the second tick and 3 after it.
\<close>

theorem watermark_decreases_on_lower_batch:
  "lastNotificationId
     (polls [Data True (Some [\<lparr>notification_id = 7, title = ''a'', message = ''b'',
                                type = ''urgent'', job_id = None\<rparr>])]
        (constructor_fields ''granted'')) = Some 7
   \<and> lastNotificationId
       (checkForNewNotifications
          (Data True (Some [\<lparr>notification_id = 3, title = ''c'', message = ''d'',
                              type = ''urgent'', job_id = None\<rparr>]))
          (polls [Data True (Some [\<lparr>notification_id = 7, title = ''a'', message = ''b'',
                                     type = ''urgent'', job_id = None\<rparr>])]
             (constructor_fields ''granted''))) = Some 3
   \<and> \<not> wm_le (Some 7) (Some 3)"
  by (simp add: polls_def check_watermark constructor_fields_def)

section \<open>What a poll tick displays\<close>

lemma displayed_ids_append:
  "displayed_ids (xs @ ys) = displayed_ids xs @ displayed_ids ys"
  by (simp add: displayed_ids_def map_filter_def)

lemma displayed_ids_Nil: "displayed_ids [] = []"
  by (simp add: displayed_ids_def map_filter_def)

lemma displayed_ids_Cons:
  "displayed_ids (e # es) =
     (case displayed_id e of None \<Rightarrow> displayed_ids es | Some i \<Rightarrow> i # displayed_ids es)"
  by (simp add: displayed_ids_def map_filter_def split: option.splits)

lemmas displayed_ids_simps = displayed_ids_append displayed_ids_Nil displayed_ids_Cons

lemma new_events_eq: "trace (f w) = trace w @ es \<Longrightarrow> new_events f w = es"
  by (simp add: new_events_def)

lemma show_if_new_displayed:
  "displayed_ids (trace (show_if_new n w)) = displayed_ids (trace w) @
     (if permission w = ''granted'' \<and>
         \<not> already_shown (lastNotificationId w) (notification_id n)
      then [notification_id n] else [])"
  by (simp add: show_if_new_def showNotification_trace make_options_def notif_args_def
        displayed_ids_simps)

lemma fold_show_if_new_displayed:
  "displayed_ids (trace (fold show_if_new ns w)) = displayed_ids (trace w) @
     (if permission w = ''granted''
      then fresh_ids (lastNotificationId w) (map notification_id ns) else [])"
  by (induction ns arbitrary: w)
     (simp_all add: show_if_new_displayed show_if_new_fields fresh_ids_def)

lemma show_if_new_extends: "\<exists>es. trace (show_if_new n w) = trace w @ es"
  by (simp add: show_if_new_def showNotification_trace)

lemma fold_show_if_new_extends: "\<exists>es. trace (fold show_if_new ns w) = trace w @ es"
proof (induction ns arbitrary: w)
  case Nil
  then show ?case by simp
next
  case (Cons n ns)
  obtain es1 where e1: "trace (show_if_new n w) = trace w @ es1"
    using show_if_new_extends by blast
  obtain es2 where
    e2: "trace (fold show_if_new ns (show_if_new n w)) = trace (show_if_new n w) @ es2"
    using Cons.IH by blast
  show ?case using e1 e2 by simp
qed

lemma check_resume_extends:
  "\<exists>es. trace (checkForNewNotifications_resume r w) = trace w @ es"
proof (cases r)
  case (Data success ns)
  show ?thesis
  proof (cases "success \<and> ns \<noteq> None")
    case True
    then obtain notifications where n: "r = Data True (Some notifications)"
      using Data by auto
    show ?thesis
      unfolding n check_resume_success_trace by (rule fold_show_if_new_extends)
  next
    case False
    then show ?thesis using Data
      by (auto simp: checkForNewNotifications_resume_def emit_def)
  qed
qed (simp_all add: checkForNewNotifications_resume_def emit_def)

lemma check_extends: "\<exists>es. trace (checkForNewNotifications r w) = trace w @ es"
proof -
  obtain es where
    "trace (checkForNewNotifications_resume r (checkForNewNotifications_begin w)) =
       trace (checkForNewNotifications_begin w) @ es"
    using check_resume_extends by blast
  then show ?thesis by (simp add: checkForNewNotifications_def check_begin_fields)
qed

lemma check_resume_displayed:
  "displayed_ids (trace (checkForNewNotifications_resume r w)) = displayed_ids (trace w) @
     (if permission w = ''granted''
      then fresh_ids (lastNotificationId w) (fetched_ids r) else [])"
proof (cases r rule: fetched_ids.cases)
  case (1 success ns)
  show ?thesis
  proof (cases success)
    case True
    then show ?thesis
      using 1 by (simp add: check_resume_success_trace fold_show_if_new_displayed)
  next
    case False
    then show ?thesis
      using 1 by (simp add: checkForNewNotifications_resume_def fresh_ids_def)
  qed
qed (simp_all add: checkForNewNotifications_resume_def emit_def fresh_ids_def
       displayed_ids_simps)

lemma check_displayed:
  "displayed_ids (trace (checkForNewNotifications r w)) = displayed_ids (trace w) @
     (if permission w = ''granted''
      then fresh_ids (lastNotificationId w) (fetched_ids r) else [])"
  by (simp add: checkForNewNotifications_def check_resume_displayed check_begin_fields
        displayed_ids_simps)

lemma tick_displayed_eq:
  "tick_displayed r w =
     (if permission w = ''granted''
      then fresh_ids (lastNotificationId w) (fetched_ids r) else [])"
proof -
  obtain es where es: "trace (checkForNewNotifications r w) = trace w @ es"
    using check_extends by blast
  have "displayed_ids (trace w) @ displayed_ids es =
          displayed_ids (trace w) @
            (if permission w = ''granted''
             then fresh_ids (lastNotificationId w) (fetched_ids r) else [])"
    using check_displayed [of r w] es by (simp add: displayed_ids_append)
  then show ?thesis
    using new_events_eq [of "checkForNewNotifications r" w es] es
    by (simp add: tick_displayed_def)
qed

text \<open>
  C2. The test of \<open>show_if_new\<close> is there to skip what has been shown, so that an item is
  displayed once. Since the watermark can fall (C1), an item that has been displayed
  passes the test again. A manager with permission granted polls the batches with the
  single identifiers 5, then 3, then 5: the first tick displays 5, the second displays
  nothing and lowers the watermark from 5 to 3, and the third displays 5 again.
\<close>

theorem item_displayed_twice:
  "displayed_ids
     (trace
        (polls
           [Data True (Some [\<lparr>notification_id = 5, title = ''a'', message = ''b'',
                               type = ''urgent'', job_id = None\<rparr>]),
            Data True (Some [\<lparr>notification_id = 3, title = ''c'', message = ''d'',
                               type = ''urgent'', job_id = None\<rparr>]),
            Data True (Some [\<lparr>notification_id = 5, title = ''a'', message = ''b'',
                               type = ''urgent'', job_id = None\<rparr>])]
           (constructor_fields ''granted''))) = [5, 5]
   \<and> lastNotificationId
       (polls
          [Data True (Some [\<lparr>notification_id = 5, title = ''a'', message = ''b'',
                              type = ''urgent'', job_id = None\<rparr>])]
          (constructor_fields ''granted'')) = Some 5
   \<and> lastNotificationId
       (polls
          [Data True (Some [\<lparr>notification_id = 5, title = ''a'', message = ''b'',
                              type = ''urgent'', job_id = None\<rparr>]),
           Data True (Some [\<lparr>notification_id = 3, title = ''c'', message = ''d'',
                              type = ''urgent'', job_id = None\<rparr>])]
          (constructor_fields ''granted'')) = Some 3
   \<and> tick_displayed
       (Data True (Some [\<lparr>notification_id = 5, title = ''a'', message = ''b'',
                           type = ''urgent'', job_id = None\<rparr>]))
       (polls
          [Data True (Some [\<lparr>notification_id = 5, title = ''a'', message = ''b'',
                              type = ''urgent'', job_id = None\<rparr>]),
           Data True (Some [\<lparr>notification_id = 3, title = ''c'', message = ''d'',
                              type = ''urgent'', job_id = None\<rparr>])]
          (constructor_fields ''granted'')) = [5]"
  by (simp add: polls_def check_displayed check_fields check_watermark tick_displayed_eq
        fresh_ids_def already_shown_def constructor_fields_def displayed_ids_Nil)

section \<open>Monitoring, manual triggers and sequences of calls\<close>

lemma start_begin_fields:
  "permission (startMonitoring_begin w) = permission w"
  "checkInterval (startMonitoring_begin w) = checkInterval w"
  "lastNotificationId (startMonitoring_begin w) = lastNotificationId w"
  "notificationSound (startMonitoring_begin w) = notificationSound w"
  "monitoringInterval (startMonitoring_begin w) = monitoringInterval w"
  "intervals (startMonitoring_begin w) = intervals w"
  "next_timer (startMonitoring_begin w) = next_timer w"
  "trace (startMonitoring_begin w) =
     trace w @ [Log ''Starting notification monitoring...'', Fetch api_url]"
  by (simp_all add: startMonitoring_begin_def checkForNewNotifications_begin_def emit_def)

lemma start_resume_fields:
  "permission (startMonitoring_resume r w) = permission w"
  "checkInterval (startMonitoring_resume r w) = checkInterval w"
  "notificationSound (startMonitoring_resume r w) = notificationSound w"
  "lastNotificationId (startMonitoring_resume r w) =
     lastNotificationId (checkForNewNotifications_resume r w)"
  by (simp_all add: startMonitoring_resume_def Let_def platform_defs check_resume_fields)

lemma start_resume_timer:
  "monitoringInterval (startMonitoring_resume r w) =
     Some (next_timer (checkForNewNotifications_resume r w))"
  "intervals (startMonitoring_resume r w) =
     intervals w @ [(next_timer (checkForNewNotifications_resume r w), checkInterval w)]"
  "trace (startMonitoring_resume r w) =
     trace (checkForNewNotifications_resume r w) @
       [SetInterval (next_timer (checkForNewNotifications_resume r w)) (checkInterval w),
        Log (''Monitoring every '' @ string_of_nat (checkInterval w div 1000) @ '' seconds'')]"
  by (simp_all add: startMonitoring_resume_def Let_def platform_defs check_resume_fields)

lemma start_fields:
  "permission (startMonitoring r w) = permission w"
  "checkInterval (startMonitoring r w) = checkInterval w"
  "notificationSound (startMonitoring r w) = notificationSound w"
  by (simp_all add: startMonitoring_def start_resume_fields start_begin_fields)

lemma stop_fields:
  "permission (stopMonitoring w) = permission w"
  "checkInterval (stopMonitoring w) = checkInterval w"
  "lastNotificationId (stopMonitoring w) = lastNotificationId w"
  "notificationSound (stopMonitoring w) = notificationSound w"
  "monitoringInterval (stopMonitoring w) = monitoringInterval w"
  "next_timer (stopMonitoring w) = next_timer w"
  by (simp_all add: stopMonitoring_def platform_defs split: option.splits)

lemma trigger_fields:
  "permission (triggerNotification ty ttl msg j now w) = permission w"
  "checkInterval (triggerNotification ty ttl msg j now w) = checkInterval w"
  "lastNotificationId (triggerNotification ty ttl msg j now w) = lastNotificationId w"
  "notificationSound (triggerNotification ty ttl msg j now w) = notificationSound w"
  "monitoringInterval (triggerNotification ty ttl msg j now w) = monitoringInterval w"
  "intervals (triggerNotification ty ttl msg j now w) = intervals w"
  by (simp_all add: triggerNotification_def showNotification_fields)

lemma fold_check_fields:
  "permission (fold (\<lambda>k. checkForNewNotifications (gw k)) ks w) = permission w"
  "checkInterval (fold (\<lambda>k. checkForNewNotifications (gw k)) ks w) = checkInterval w"
  "notificationSound (fold (\<lambda>k. checkForNewNotifications (gw k)) ks w) = notificationSound w"
  "monitoringInterval (fold (\<lambda>k. checkForNewNotifications (gw k)) ks w) = monitoringInterval w"
  "intervals (fold (\<lambda>k. checkForNewNotifications (gw k)) ks w) = intervals w"
  by (induction ks arbitrary: w; simp add: check_fields)+

lemma elapse_fields:
  "permission (elapse gw w) = permission w"
  "checkInterval (elapse gw w) = checkInterval w"
  "notificationSound (elapse gw w) = notificationSound w"
  "monitoringInterval (elapse gw w) = monitoringInterval w"
  "intervals (elapse gw w) = intervals w"
  by (simp_all add: elapse_def fold_check_fields)

lemma showTestNotification_fields:
  "permission (showTestNotification w) = permission w"
  "checkInterval (showTestNotification w) = checkInterval w"
  by (simp_all add: showTestNotification_def showNotification_fields)

lemma page_fields:
  "permission (showSuccessMessage w) = permission w"
  "checkInterval (showSuccessMessage w) = checkInterval w"
  "permission (showDeniedMessage w) = permission w"
  "checkInterval (showDeniedMessage w) = checkInterval w"
  "permission (dismissPrompt w) = permission w"
  "checkInterval (dismissPrompt w) = checkInterval w"
  "permission (showPermissionPrompt w) = permission w"
  "checkInterval (showPermissionPrompt w) = checkInterval w"
  "permission (createNotificationSound a w) = permission w"
  "checkInterval (createNotificationSound a w) = checkInterval w"
  by (simp_all add: showSuccessMessage_def showDeniedMessage_def dismissPrompt_def
        showPermissionPrompt_def createNotificationSound_def platform_defs)

lemma request_checkInterval:
  "checkInterval (requestPermission resp r w) = checkInterval w"
  by (cases resp)
     (simp_all add: requestPermission_def Let_def emit_def start_resume_fields
        start_begin_fields showTestNotification_fields page_fields)

lemma request_permission:
  "permission (requestPermission resp r w) =
     (case resp of Resolved p \<Rightarrow> p | Rejected \<Rightarrow> permission w)"
  by (cases resp)
     (simp_all add: requestPermission_def Let_def emit_def start_resume_fields
        start_begin_fields showTestNotification_fields page_fields)

lemma init_fields:
  "permission (init a r w) = permission w"
  "checkInterval (init a r w) = checkInterval w"
  by (simp_all add: init_def Let_def emit_def start_resume_fields start_begin_fields
        page_fields)

lemma constructor_fields_simps:
  "permission (constructor p a r) = p"
  "checkInterval (constructor p a r) = 30000"
  by (simp_all add: constructor_def init_fields constructor_fields_def)

lemma apply_op_checkInterval: "checkInterval (apply_op x w) = checkInterval w"
  by (cases x)
     (simp_all add: check_fields showNotification_fields start_fields stop_fields
        trigger_fields request_checkInterval elapse_fields)

lemma run_checkInterval: "checkInterval (run ops w) = checkInterval w"
  unfolding run_def by (induction ops arbitrary: w) (simp_all add: apply_op_checkInterval)

lemma apply_op_permission:
  "\<not> writes_permission x \<Longrightarrow> permission (apply_op x w) = permission w"
  by (cases x)
     (simp_all add: check_fields showNotification_fields start_fields stop_fields
        trigger_fields elapse_fields)

lemma run_permission:
  "list_all (\<lambda>x. \<not> writes_permission x) ops \<Longrightarrow> permission (run ops w) = permission w"
  unfolding run_def by (induction ops arbitrary: w) (simp_all add: apply_op_permission)

section \<open>Without permission nothing is displayed\<close>

lemma showNotification_no_display:
  "permission w \<noteq> ''granted'' \<Longrightarrow>
   filter is_display (trace (showNotification a w)) = filter is_display (trace w)"
  by (simp add: showNotification_trace)

lemma show_if_new_no_display:
  "permission w \<noteq> ''granted'' \<Longrightarrow>
   filter is_display (trace (show_if_new n w)) = filter is_display (trace w)"
  by (simp add: show_if_new_def showNotification_no_display)

lemma fold_show_if_new_no_display:
  "permission w \<noteq> ''granted'' \<Longrightarrow>
   filter is_display (trace (fold show_if_new ns w)) = filter is_display (trace w)"
  by (induction ns arbitrary: w) (simp_all add: show_if_new_no_display show_if_new_fields)

lemma check_resume_no_display:
  assumes "permission w \<noteq> ''granted''"
  shows "filter is_display (trace (checkForNewNotifications_resume r w)) =
         filter is_display (trace w)"
proof (cases r)
  case (Data success ns)
  show ?thesis
  proof (cases "success \<and> ns \<noteq> None")
    case True
    then obtain notifications where n: "r = Data True (Some notifications)"
      using Data by auto
    show ?thesis
      unfolding n check_resume_success_trace
      using assms by (rule fold_show_if_new_no_display)
  next
    case False
    then show ?thesis using Data
      by (auto simp: checkForNewNotifications_resume_def emit_def)
  qed
qed (simp_all add: checkForNewNotifications_resume_def emit_def)

lemma check_no_display:
  "permission w \<noteq> ''granted'' \<Longrightarrow>
   filter is_display (trace (checkForNewNotifications r w)) = filter is_display (trace w)"
  by (simp add: checkForNewNotifications_def check_resume_no_display check_begin_fields)

lemma start_no_display:
  "permission w \<noteq> ''granted'' \<Longrightarrow>
   filter is_display (trace (startMonitoring r w)) = filter is_display (trace w)"
  by (simp add: startMonitoring_def start_resume_timer check_resume_no_display
        start_begin_fields)

lemma stop_no_display:
  "filter is_display (trace (stopMonitoring w)) = filter is_display (trace w)"
  by (simp add: stopMonitoring_def platform_defs split: option.splits)

lemma trigger_no_display:
  "permission w \<noteq> ''granted'' \<Longrightarrow>
   filter is_display (trace (triggerNotification ty ttl msg j now w)) =
   filter is_display (trace w)"
  by (simp add: triggerNotification_def showNotification_no_display)

lemma fold_check_no_display:
  "permission w \<noteq> ''granted'' \<Longrightarrow>
   filter is_display (trace (fold (\<lambda>k. checkForNewNotifications (gw k)) ks w)) =
   filter is_display (trace w)"
  by (induction ks arbitrary: w) (simp_all add: check_no_display check_fields)

lemma apply_op_no_display:
  "permission w \<noteq> ''granted'' \<Longrightarrow> \<not> writes_permission x \<Longrightarrow>
   filter is_display (trace (apply_op x w)) = filter is_display (trace w)"
  by (cases x)
     (simp_all add: check_no_display showNotification_no_display start_no_display
        stop_no_display trigger_no_display elapse_def fold_check_no_display)

lemma run_no_display:
  "permission w \<noteq> ''granted'' \<Longrightarrow> list_all (\<lambda>x. \<not> writes_permission x) ops \<Longrightarrow>
   filter is_display (trace (run ops w)) = filter is_display (trace w)"
  unfolding run_def
  by (induction ops arbitrary: w) (simp_all add: apply_op_no_display apply_op_permission)

text \<open>
  C3. When the permission held by the manager is anything other than granted,
  \<open>showNotification\<close> only writes its log line and returns: it constructs no
  notification and plays no sound. Hence no sequence of polls, displays, manual
  triggers, starts, stops and timer periods, whatever the gateway answers, adds a
  notification or a sound to the trace.
\<close>

theorem no_display_without_permission:
  assumes "permission w \<noteq> ''granted''"
  shows "showNotification a w =
           emit (Log ''Cannot show notification - permission not granted'') w
       \<and> filter is_display (new_events (showNotification a) w) = []
       \<and> filter is_display (new_events (checkForNewNotifications r) w) = []
       \<and> (list_all (\<lambda>x. \<not> writes_permission x) ops \<longrightarrow>
            filter is_display (trace (run ops w)) = filter is_display (trace w))"
proof -
  have a: "showNotification a w =
             emit (Log ''Cannot show notification - permission not granted'') w"
    using assms by (simp add: showNotification_def)
  have b: "filter is_display (new_events (showNotification a) w) = []"
    using assms by (simp add: new_events_def showNotification_trace)
  obtain es where es: "trace (checkForNewNotifications r w) = trace w @ es"
    using check_extends by blast
  have "filter is_display (trace w @ es) = filter is_display (trace w)"
    using check_no_display [OF assms, of r] es by simp
  then have "filter is_display es = []" by simp
  then have c: "filter is_display (new_events (checkForNewNotifications r) w) = []"
    using new_events_eq [of "checkForNewNotifications r" w es] es by simp
  show ?thesis using a b c run_no_display [OF assms] by blast
qed

theorem no_display_without_permission_witness:
  "permission (constructor_fields ''denied'') \<noteq> ''granted''
   \<and> showNotification
       \<lparr>arg_title = ''t'', arg_body = ''b'', arg_icon = Some (Glyph Flame),
         arg_tag = None, arg_data = empty_data\<rparr>
       (constructor_fields ''denied'') =
     emit (Log ''Cannot show notification - permission not granted'')
       (constructor_fields ''denied'')
   \<and> filter is_display
       (new_events
          (checkForNewNotifications
             (Data True (Some [\<lparr>notification_id = 5, title = ''a'', message = ''b'',
                                 type = ''critical'', job_id = None\<rparr>])))
          (constructor_fields ''denied'')) = []
   \<and> list_all (\<lambda>x. \<not> writes_permission x)
        [StartMonitoring
           (Data True (Some [\<lparr>notification_id = 5, title = ''a'', message = ''b'',
                               type = ''critical'', job_id = None\<rparr>])),
         TriggerNotification ''urgent'' ''t'' ''b'' None 17]
   \<and> filter is_display
       (trace
          (run
             [StartMonitoring
                (Data True (Some [\<lparr>notification_id = 5, title = ''a'', message = ''b'',
                                    type = ''critical'', job_id = None\<rparr>])),
              TriggerNotification ''urgent'' ''t'' ''b'' None 17]
             (constructor_fields ''denied''))) = []"
  using no_display_without_permission
    [of "constructor_fields ''denied''"
        "\<lparr>arg_title = ''t'', arg_body = ''b'', arg_icon = Some (Glyph Flame),
          arg_tag = None, arg_data = empty_data\<rparr>"
        "Data True (Some [\<lparr>notification_id = 5, title = ''a'', message = ''b'',
                            type = ''critical'', job_id = None\<rparr>])"
        "[StartMonitoring
            (Data True (Some [\<lparr>notification_id = 5, title = ''a'', message = ''b'',
                                type = ''critical'', job_id = None\<rparr>])),
          TriggerNotification ''urgent'' ''t'' ''b'' None 17]"]
  by (simp add: constructor_fields_def)

section \<open>A poll that fails\<close>

lemma failed_poll_result:
  assumes "poll_failed r"
  shows "checkForNewNotifications r w =
           w\<lparr>trace := trace w @ Fetch api_url #
                (if poll_threw r then [Error ''Error checking notifications:''] else [])\<rparr>"
  using assms
  by (cases r)
     (auto simp: checkForNewNotifications_def checkForNewNotifications_resume_def
        checkForNewNotifications_begin_def emit_def)

text \<open>
  C4, as the claim states it, fails. The response with \<^verbatim>\<open>success: false\<close> is a failed
  poll, and the tick writes nothing to the console, where a network error writes the
  error line: the two are not treated alike as far as logging goes.
\<close>

theorem success_false_is_not_logged:
  "poll_failed (Data False (Some []))
   \<and> filter is_log
       (new_events (checkForNewNotifications (Data False (Some [])))
          (constructor_fields ''granted'')) = []
   \<and> filter is_log
       (new_events (checkForNewNotifications NetworkError)
          (constructor_fields ''granted'')) = [Error ''Error checking notifications:'']"
  by (simp add: new_events_def failed_poll_result constructor_fields_def)

text \<open>
  C4, amended. When a poll fails (the fetch rejects, the body does not parse, the body
  has no array of notifications, or the body says \<^verbatim>\<open>success: false\<close>), the tick issues
  its one fetch and leaves every field of the manager and every timer as it was: the
  watermark, the permission, the stored timer handle and the live timers are unchanged,
  no further fetch is issued and no timer is set. The failures that throw are written to
  the console as an error; the response with \<^verbatim>\<open>success: false\<close> returns without a
  log line. As far as the state goes, all failures are treated alike.
\<close>

theorem failed_poll_leaves_state:
  assumes "poll_failed r"
  shows "checkForNewNotifications r w =
           w\<lparr>trace := trace w @ Fetch api_url #
                (if poll_threw r then [Error ''Error checking notifications:''] else [])\<rparr>
       \<and> lastNotificationId (checkForNewNotifications r w) = lastNotificationId w
       \<and> permission (checkForNewNotifications r w) = permission w
       \<and> monitoringInterval (checkForNewNotifications r w) = monitoringInterval w
       \<and> intervals (checkForNewNotifications r w) = intervals w
       \<and> fetch_count (checkForNewNotifications r w) = fetch_count w + 1
       \<and> filter is_timer (new_events (checkForNewNotifications r) w) = []
       \<and> filter is_log (new_events (checkForNewNotifications r) w) =
           (if poll_threw r then [Error ''Error checking notifications:''] else [])"
  by (simp add: failed_poll_result [OF assms] fetch_count_def new_events_def)

theorem failed_poll_leaves_state_witness:
  "poll_failed (Data False (Some [\<lparr>notification_id = 9, title = ''a'', message = ''b'',
                                    type = ''urgent'', job_id = None\<rparr>]))
   \<and> lastNotificationId
       (checkForNewNotifications
          (Data False (Some [\<lparr>notification_id = 9, title = ''a'', message = ''b'',
                               type = ''urgent'', job_id = None\<rparr>]))
          ((constructor_fields ''granted'')\<lparr>lastNotificationId := Some 4\<rparr>)) = Some 4
   \<and> fetch_count
       (checkForNewNotifications
          (Data False (Some [\<lparr>notification_id = 9, title = ''a'', message = ''b'',
                               type = ''urgent'', job_id = None\<rparr>]))
          ((constructor_fields ''granted'')\<lparr>lastNotificationId := Some 4\<rparr>)) = 1"
  using failed_poll_leaves_state
    [of "Data False (Some [\<lparr>notification_id = 9, title = ''a'', message = ''b'',
                             type = ''urgent'', job_id = None\<rparr>])"
        "(constructor_fields ''granted'')\<lparr>lastNotificationId := Some 4\<rparr>"]
  by (simp add: constructor_fields_def fetch_count_def)

section \<open>Stopping the monitor\<close>

lemma show_if_new_fetch_count: "fetch_count (show_if_new n w) = fetch_count w"
  by (simp add: fetch_count_def show_if_new_def showNotification_trace)

lemma fold_show_if_new_fetch_count: "fetch_count (fold show_if_new ns w) = fetch_count w"
  by (induction ns arbitrary: w) (simp_all add: show_if_new_fetch_count)

lemma check_resume_fetch_count:
  "fetch_count (checkForNewNotifications_resume r w) = fetch_count w"
proof (cases r)
  case (Data success ns)
  show ?thesis
  proof (cases "success \<and> ns \<noteq> None")
    case True
    then obtain notifications where n: "r = Data True (Some notifications)"
      using Data by auto
    show ?thesis
      using fold_show_if_new_fetch_count [of notifications w]
      by (simp add: n fetch_count_def check_resume_success_trace)
  next
    case False
    then show ?thesis using Data
      by (auto simp: fetch_count_def checkForNewNotifications_resume_def emit_def)
  qed
qed (simp_all add: fetch_count_def checkForNewNotifications_resume_def emit_def)

lemma check_fetch_count:
  "fetch_count (checkForNewNotifications r w) = fetch_count w + 1"
  using check_resume_fetch_count [of r "checkForNewNotifications_begin w"]
  by (simp add: checkForNewNotifications_def fetch_count_def check_begin_fields)

lemma fold_check_fetch_count:
  "fetch_count (fold (\<lambda>k. checkForNewNotifications (gw k)) ks w) =
     fetch_count w + length ks"
  by (induction ks arbitrary: w) (simp_all add: check_fetch_count)

lemma elapse_fetch_count:
  "fetch_count (elapse gw w) = fetch_count w + length (intervals w)"
  by (simp add: elapse_def fold_check_fetch_count)

lemma check_resume_empty: "checkForNewNotifications_resume (Data True (Some [])) w = w"
  by (simp add: checkForNewNotifications_resume_def)

lemma showSuccessMessage_timers:
  "intervals (showSuccessMessage w) = intervals w"
  "monitoringInterval (showSuccessMessage w) = monitoringInterval w"
  "next_timer (showSuccessMessage w) = next_timer w + 1"
  "prompt_present (showSuccessMessage w) = prompt_present w"
  by (simp_all add: showSuccessMessage_def platform_defs)

lemma dismissPrompt_timers:
  "intervals (dismissPrompt w) = intervals w"
  "monitoringInterval (dismissPrompt w) = monitoringInterval w"
  "next_timer (dismissPrompt w) = next_timer w + (if prompt_present w then 1 else 0)"
  "prompt_present (dismissPrompt w) = False"
  by (simp_all add: dismissPrompt_def platform_defs)

lemma showTestNotification_timers:
  "intervals (showTestNotification w) = intervals w"
  "monitoringInterval (showTestNotification w) = monitoringInterval w"
  "prompt_present (showTestNotification w) = prompt_present w"
  "next_timer (showTestNotification w) =
     next_timer w + (if permission w = ''granted'' then 1 else 0)"
  by (simp_all add: showTestNotification_def showNotification_def platform_defs Let_def)

lemma start_resume_empty_timers:
  "intervals (startMonitoring_resume (Data True (Some [])) w) =
     intervals w @ [(next_timer w, checkInterval w)]"
  "monitoringInterval (startMonitoring_resume (Data True (Some [])) w) = Some (next_timer w)"
  "next_timer (startMonitoring_resume (Data True (Some [])) w) = next_timer w + 1"
  "prompt_present (startMonitoring_resume (Data True (Some [])) w) = prompt_present w"
  by (simp_all add: startMonitoring_resume_def check_resume_empty platform_defs Let_def)

lemma start_begin_prompt: "prompt_present (startMonitoring_begin w) = prompt_present w"
  by (simp add: startMonitoring_begin_def checkForNewNotifications_begin_def emit_def)

lemma request_granted_empty:
  "intervals (requestPermission (Resolved ''granted'') (Data True (Some [])) w) =
     intervals w @ [(next_timer w + (if prompt_present w then 3 else 2), checkInterval w)]"
  "monitoringInterval (requestPermission (Resolved ''granted'') (Data True (Some [])) w) =
     Some (next_timer w + (if prompt_present w then 3 else 2))"
  "next_timer (requestPermission (Resolved ''granted'') (Data True (Some [])) w) =
     next_timer w + (if prompt_present w then 4 else 3)"
  "prompt_present (requestPermission (Resolved ''granted'') (Data True (Some [])) w) = False"
  by (simp_all add: requestPermission_def Let_def start_resume_empty_timers
        start_begin_fields start_begin_prompt showTestNotification_timers
        showTestNotification_fields dismissPrompt_timers showSuccessMessage_timers
        page_fields emit_def)

lemma constructor_default:
  "intervals (constructor ''default'' a r) = []"
  "monitoringInterval (constructor ''default'' a r) = None"
  "next_timer (constructor ''default'' a r) = 1"
  "prompt_present (constructor ''default'' a r) = True"
  by (simp_all add: constructor_def init_def Let_def constructor_fields_def
        showPermissionPrompt_def createNotificationSound_def emit_def)

lemma stop_trace:
  "monitoringInterval w = Some h \<Longrightarrow> h \<noteq> 0 \<Longrightarrow>
   trace (stopMonitoring w) = trace w @ [ClearInterval h, Log ''Monitoring stopped'']"
  by (simp add: stopMonitoring_def clearInterval_def emit_def)

text \<open>
  C5. \<open>stopMonitoring\<close> is meant to end the polling, and says so in its log line, but it
  clears the one handle that the manager holds, and \<open>startMonitoring\<close> stores that
  handle late and over the one before. Two sequences of calls show it.

  A manager built with permission \<open>default\<close> has \<open>requestPermission\<close> called twice, each
  time answered with \<open>granted\<close> (the button of the prompt can be pressed again before the
  prompt is gone), so monitoring is started twice and the handle of the first timer is
  overwritten. \<open>stopMonitoring\<close> clears the second timer and logs that monitoring has
  stopped: the first timer is still live, and the next period issues a fetch.

  \<open>stopMonitoring\<close> is called while \<open>startMonitoring\<close> awaits its first fetch, as it is
  when it follows the construction of a manager at once. No handle is stored yet, so
  the call does nothing; when the fetch is answered the timer is set, and it polls.
\<close>

theorem stop_leaves_a_timer_polling:
  "intervals
     (run [RequestPermission (Resolved ''granted'') (Data True (Some [])),
                RequestPermission (Resolved ''granted'') (Data True (Some [])),
                StopMonitoring]
             (constructor ''default'' True NetworkError)) = [(4, 30000)]
   \<and> last (trace
             (run [RequestPermission (Resolved ''granted'') (Data True (Some [])),
                        RequestPermission (Resolved ''granted'') (Data True (Some [])),
                        StopMonitoring]
                     (constructor ''default'' True NetworkError))) = Log ''Monitoring stopped''
   \<and> fetch_count
       (elapse (\<lambda>k. Data True (Some []))
          (run [RequestPermission (Resolved ''granted'') (Data True (Some [])),
                     RequestPermission (Resolved ''granted'') (Data True (Some [])),
                     StopMonitoring]
                  (constructor ''default'' True NetworkError))) =
     fetch_count
       (run [RequestPermission (Resolved ''granted'') (Data True (Some [])),
                  RequestPermission (Resolved ''granted'') (Data True (Some [])),
                  StopMonitoring]
               (constructor ''default'' True NetworkError)) + 1
   \<and> stopMonitoring (startMonitoring_begin (constructor_fields ''granted'')) =
       startMonitoring_begin (constructor_fields ''granted'')
   \<and> intervals
       (startMonitoring_resume (Data True (Some []))
          (stopMonitoring (startMonitoring_begin (constructor_fields ''granted'')))) = [(1, 30000)]
   \<and> fetch_count
       (elapse (\<lambda>k. Data True (Some []))
          (startMonitoring_resume (Data True (Some []))
             (stopMonitoring (startMonitoring_begin (constructor_fields ''granted''))))) =
     fetch_count
       (startMonitoring_resume (Data True (Some []))
          (stopMonitoring (startMonitoring_begin (constructor_fields ''granted'')))) + 1"
proof -
  have m: "monitoringInterval
     (run [RequestPermission (Resolved ''granted'') (Data True (Some [])),
           RequestPermission (Resolved ''granted'') (Data True (Some []))]
        (constructor ''default'' True NetworkError)) = Some 7"
    by (simp add: run_def request_granted_empty constructor_default)
  have i: "intervals
     (run [RequestPermission (Resolved ''granted'') (Data True (Some [])),
                RequestPermission (Resolved ''granted'') (Data True (Some [])),
                StopMonitoring]
             (constructor ''default'' True NetworkError)) = [(4, 30000)]"
    by (simp add: run_def stopMonitoring_def clearInterval_def emit_def
          request_granted_empty constructor_default request_checkInterval
          constructor_fields_simps)
  have l: "last (trace
             (run [RequestPermission (Resolved ''granted'') (Data True (Some [])),
                        RequestPermission (Resolved ''granted'') (Data True (Some [])),
                        StopMonitoring]
                     (constructor ''default'' True NetworkError))) = Log ''Monitoring stopped''"
    using stop_trace [OF m] by (simp add: run_def)
  have s: "stopMonitoring (startMonitoring_begin (constructor_fields ''granted'')) =
             startMonitoring_begin (constructor_fields ''granted'')"
    by (simp add: stopMonitoring_def start_begin_fields constructor_fields_def)
  have j: "intervals
       (startMonitoring_resume (Data True (Some []))
          (stopMonitoring (startMonitoring_begin (constructor_fields ''granted'')))) = [(1, 30000)]"
    unfolding s
    by (simp add: start_resume_empty_timers start_begin_fields constructor_fields_def)
  show ?thesis
    unfolding elapse_fetch_count i j using l s by simp
qed

section \<open>Starting the monitor\<close>

lemma check_resume_fetch_free:
  assumes "trace (checkForNewNotifications_resume r w) = trace w @ es"
  shows "filter is_fetch es = []"
  using check_resume_fetch_count [of r w] assms by (simp add: fetch_count_def)

lemma string_of_nat_30: "string_of_nat (30000 div 1000) = ''30''"
  by (simp add: string_of_nat.simps digit_char_def)

lemma start_events:
  assumes "checkInterval w = 30000"
  shows "\<exists>h es. monitoringInterval (startMonitoring r w) = Some h
           \<and> intervals (startMonitoring r w) = intervals w @ [(h, 30000)]
           \<and> new_events (startMonitoring r) w =
               [Log ''Starting notification monitoring...'', Fetch api_url] @ es @
               [SetInterval h 30000, Log ''Monitoring every 30 seconds'']
           \<and> filter is_fetch es = []"
proof -
  let ?b = "startMonitoring_begin w"
  obtain es where es: "trace (checkForNewNotifications_resume r ?b) = trace ?b @ es"
    using check_resume_extends by blast
  have free: "filter is_fetch es = []"
    using es by (rule check_resume_fetch_free)
  let ?h = "next_timer (checkForNewNotifications_resume r ?b)"
  have t: "trace (startMonitoring r w) =
             trace w @ [Log ''Starting notification monitoring...'', Fetch api_url] @ es @
               [SetInterval ?h 30000, Log ''Monitoring every 30 seconds'']"
    using string_of_nat_30
    by (simp add: startMonitoring_def start_resume_timer es assms start_begin_fields)
  have "monitoringInterval (startMonitoring r w) = Some ?h"
    by (simp add: startMonitoring_def start_resume_timer)
  moreover have "intervals (startMonitoring r w) = intervals w @ [(?h, 30000)]"
    by (simp add: startMonitoring_def start_resume_timer assms start_begin_fields)
  moreover have "new_events (startMonitoring r) w =
      [Log ''Starting notification monitoring...'', Fetch api_url] @ es @
      [SetInterval ?h 30000, Log ''Monitoring every 30 seconds'']"
    using t by (rule new_events_eq)
  ultimately show ?thesis using free by blast
qed

lemma start_fetch_count: "fetch_count (startMonitoring r w) = fetch_count w + 1"
proof -
  let ?b = "startMonitoring_begin w"
  obtain es where es: "trace (checkForNewNotifications_resume r ?b) = trace ?b @ es"
    using check_resume_extends by blast
  have "filter is_fetch es = []"
    using es by (rule check_resume_fetch_free)
  then show ?thesis
    by (simp add: fetch_count_def startMonitoring_def start_resume_timer es
          start_begin_fields)
qed

text \<open>
  C6. In every manager that the constructor built, whatever calls it has served since,
  \<open>startMonitoring\<close> issues one fetch in the call itself, before it sets its timer,
  and only then sets one interval timer, with a period of 30000 ms, whose handle it
  stores. From then on every elapsed period fires that timer, and the timer polls.
\<close>

theorem start_fetches_at_once_then_every_30_seconds:
  "(let w = run ops (constructor p a r0) in
      new_events startMonitoring_begin w =
        [Log ''Starting notification monitoring...'', Fetch api_url]
      \<and> fetch_count (startMonitoring r w) = fetch_count w + 1
      \<and> (\<exists>h es. monitoringInterval (startMonitoring r w) = Some h
             \<and> intervals (startMonitoring r w) = intervals w @ [(h, 30000)]
             \<and> new_events (startMonitoring r) w =
                 [Log ''Starting notification monitoring...'', Fetch api_url] @ es @
                 [SetInterval h 30000, Log ''Monitoring every 30 seconds'']
             \<and> filter is_fetch es = [])
      \<and> fetch_count (elapse gw (startMonitoring r w)) =
          fetch_count (startMonitoring r w) + length (intervals w) + 1)"
proof -
  define w where "w = run ops (constructor p a r0)"
  have ci: "checkInterval w = 30000"
    by (simp add: w_def run_checkInterval constructor_fields_simps)
  have 1: "new_events startMonitoring_begin w =
             [Log ''Starting notification monitoring...'', Fetch api_url]"
    by (simp add: new_events_def start_begin_fields)
  have 2: "fetch_count (startMonitoring r w) = fetch_count w + 1"
    by (rule start_fetch_count)
  have 3: "\<exists>h es. monitoringInterval (startMonitoring r w) = Some h
             \<and> intervals (startMonitoring r w) = intervals w @ [(h, 30000)]
             \<and> new_events (startMonitoring r) w =
                 [Log ''Starting notification monitoring...'', Fetch api_url] @ es @
                 [SetInterval h 30000, Log ''Monitoring every 30 seconds'']
             \<and> filter is_fetch es = []"
    using ci by (rule start_events)
  have 4: "fetch_count (elapse gw (startMonitoring r w)) =
             fetch_count (startMonitoring r w) + length (intervals w) + 1"
    by (simp add: elapse_fetch_count startMonitoring_def start_resume_timer
          start_begin_fields)
  show ?thesis
    unfolding Let_def w_def [symmetric] using 1 2 3 4 by blast
qed

theorem start_fetches_at_once_then_every_30_seconds_witness:
  "fetch_count (startMonitoring NetworkError (run [] (constructor ''denied'' False NetworkError)))
     = fetch_count (run [] (constructor ''denied'' False NetworkError)) + 1
   \<and> fetch_count
       (elapse (\<lambda>k. NetworkError)
          (startMonitoring NetworkError (run [] (constructor ''denied'' False NetworkError))))
     = fetch_count
         (startMonitoring NetworkError (run [] (constructor ''denied'' False NetworkError)))
       + length (intervals (run [] (constructor ''denied'' False NetworkError))) + 1"
  using start_fetches_at_once_then_every_30_seconds
    [of "[]" "''denied''" False NetworkError NetworkError "\<lambda>k. NetworkError"]
  by (simp add: Let_def)

section \<open>The icon of a notification\<close>

lemma trigger_icon_own:
  "trigger_icon ''critical'' = Glyph Flame"
  "trigger_icon ''urgent'' = Glyph Bolt"
  "trigger_icon ''new_job'' = Glyph Briefcase"
  "trigger_icon ''deadline'' = Glyph AlarmClock"
  "trigger_icon ''success'' = Glyph CheckMark"
  "trigger_icon ''info'' = Glyph LightBulb"
  by (simp_all add: trigger_icon_def icons_def)

lemma trigger_icon_other:
  assumes "t \<notin> {''deadline'', ''success'', ''info''}"
    and "t \<notin> set (map fst object_prototype_members)"
  shows "trigger_icon t = Glyph (notif_icon t)"
proof (cases "t \<in> {''critical'', ''urgent'', ''new_job''}")
  case True
  then show ?thesis by (auto simp: trigger_icon_own notif_icon_def)
next
  case False
  then have "map_of icons t = None"
    using assms(1) by (simp add: icons_def)
  then show ?thesis
    using False assms(2) by (simp add: trigger_icon_def notif_icon_def)
qed

text \<open>
  C7, as the claim states it, fails. The manual trigger has a table of its own: the
  category \<open>deadline\<close>, which the icon of a fetched item sends to the bell, gets the
  alarm clock there.
\<close>

theorem manual_trigger_deadline_is_not_the_bell:
  "notif_icon ''deadline'' = Bell \<and> trigger_icon ''deadline'' = Glyph AlarmClock"
  by (simp add: notif_icon_def trigger_icon_own)

text \<open>
  C7, amended. For a fetched item the icon is a function of the category alone:
  \<open>critical\<close> gives the flame, \<open>urgent\<close> the bolt, \<open>new_job\<close> the briefcase, and every
  other category, \<open>default\<close> among them, the bell; that icon is the one handed to
  \<open>showNotification\<close>. The manual trigger uses a larger table: the same three, and
  \<open>deadline\<close> with the alarm clock, \<open>success\<close> with the check mark, \<open>info\<close> with the
  light bulb; every other category that is not the name of a member inherited from
  \<^verbatim>\<open>Object.prototype\<close> gets the bell there too.
\<close>

theorem icon_selection:
  "notif_icon ''critical'' = Flame
   \<and> notif_icon ''urgent'' = Bolt
   \<and> notif_icon ''new_job'' = Briefcase
   \<and> notif_icon ''default'' = Bell
   \<and> (t \<notin> {''critical'', ''urgent'', ''new_job''} \<longrightarrow> notif_icon t = Bell)
   \<and> arg_icon (notif_args n) = Some (Glyph (notif_icon (type n)))
   \<and> trigger_icon ''deadline'' = Glyph AlarmClock
   \<and> trigger_icon ''success'' = Glyph CheckMark
   \<and> trigger_icon ''info'' = Glyph LightBulb
   \<and> (t \<notin> {''deadline'', ''success'', ''info''} \<and>
       t \<notin> set (map fst object_prototype_members) \<longrightarrow>
         trigger_icon t = Glyph (notif_icon t))"
proof -
  have "notif_icon t = Bell" if "t \<notin> {''critical'', ''urgent'', ''new_job''}"
    using that by (simp add: notif_icon_def)
  moreover have "arg_icon (notif_args n) = Some (Glyph (notif_icon (type n)))"
    by (simp add: notif_args_def)
  moreover have "notif_icon ''critical'' = Flame" "notif_icon ''urgent'' = Bolt"
    "notif_icon ''new_job'' = Briefcase" "notif_icon ''default'' = Bell"
    by (simp_all add: notif_icon_def)
  ultimately show ?thesis
    using trigger_icon_other [of t] by (simp add: trigger_icon_own)
qed

theorem icon_selection_witness:
  "''reminder'' \<notin> {''critical'', ''urgent'', ''new_job''}
   \<and> notif_icon ''reminder'' = Bell
   \<and> ''reminder'' \<notin> {''deadline'', ''success'', ''info''}
   \<and> ''reminder'' \<notin> set (map fst object_prototype_members)
   \<and> trigger_icon ''reminder'' = Glyph Bell"
  using icon_selection [of "''reminder''"]
  by (simp add: object_prototype_members_def)

section \<open>The manual trigger changes no field\<close>

text \<open>
  C8. For every category, title, body, job identifier and clock value,
  \<open>triggerNotification\<close> leaves the permission, the watermark, the stored timer handle
  and the live interval timers as they were, and likewise the poll period and the sound.
\<close>

theorem trigger_changes_no_state:
  "permission (triggerNotification ty ttl msg j now w) = permission w
   \<and> lastNotificationId (triggerNotification ty ttl msg j now w) = lastNotificationId w
   \<and> monitoringInterval (triggerNotification ty ttl msg j now w) = monitoringInterval w
   \<and> intervals (triggerNotification ty ttl msg j now w) = intervals w
   \<and> checkInterval (triggerNotification ty ttl msg j now w) = checkInterval w
   \<and> notificationSound (triggerNotification ty ttl msg j now w) = notificationSound w
   \<and> filter is_fetch (new_events (triggerNotification ty ttl msg j now) w) = []"
proof -
  have "filter is_fetch (new_events (triggerNotification ty ttl msg j now) w) = []"
    by (simp add: new_events_def triggerNotification_def showNotification_trace)
  then show ?thesis by (simp add: trigger_fields)
qed

section \<open>A watermark that is unset or 0\<close>

lemma falsy_watermark_never_shown:
  "wm = None \<or> wm = Some 0 \<Longrightarrow> \<not> already_shown wm i"
  by (auto simp: already_shown_def)

lemma fold_show_if_new_falsy:
  assumes "lastNotificationId w = None \<or> lastNotificationId w = Some 0"
  shows "fold show_if_new ns w = fold (\<lambda>n. showNotification (notif_args n)) ns w"
  using assms
proof (induction ns arbitrary: w)
  case Nil
  then show ?case by simp
next
  case (Cons n ns)
  have step: "show_if_new n w = showNotification (notif_args n) w"
    using Cons.prems by (simp add: show_if_new_def falsy_watermark_never_shown)
  have "lastNotificationId (showNotification (notif_args n) w) = None \<or>
        lastNotificationId (showNotification (notif_args n) w) = Some 0"
    using Cons.prems by (simp add: showNotification_fields)
  then show ?case using Cons.IH step by simp
qed

lemma fresh_ids_falsy:
  "wm = None \<or> wm = Some 0 \<Longrightarrow> fresh_ids wm ids = ids"
  by (simp add: fresh_ids_def falsy_watermark_never_shown)

lemma polls_zero_item:
  assumes "notification_id n = 0" and "permission w = ''granted''"
    and "lastNotificationId w = None \<or> lastNotificationId w = Some 0"
  shows "displayed_ids (trace (polls (replicate k (Data True (Some [n]))) w)) =
           displayed_ids (trace w) @ replicate k 0"
  using assms(2,3)
proof (induction k arbitrary: w)
  case 0
  then show ?case by (simp add: polls_def)
next
  case (Suc k)
  let ?w = "checkForNewNotifications (Data True (Some [n])) w"
  have p: "permission ?w = ''granted''"
    using Suc.prems(1) by (simp add: check_fields)
  have l: "lastNotificationId ?w = None \<or> lastNotificationId ?w = Some 0"
    using assms(1) by (simp add: check_watermark)
  have d: "displayed_ids (trace ?w) = displayed_ids (trace w) @ [0]"
    using Suc.prems assms(1) by (simp add: check_displayed fresh_ids_falsy)
  have "displayed_ids (trace (polls (replicate k (Data True (Some [n]))) ?w)) =
          displayed_ids (trace ?w) @ replicate k 0"
    using p l by (rule Suc.IH)
  then show ?case
    using d by (simp add: polls_def replicate_app_Cons_same)
qed

text \<open>
  C9. On a tick that starts with the watermark unset or 0, the test for items already
  seen lets every item through: each item of a batch fetched with success is handed to
  \<open>showNotification\<close>, whatever its identifier, and with permission granted each is
  displayed. An item with identifier 0 sets the watermark to 0, so a gateway that keeps
  answering with that item has it displayed on every tick.
\<close>

theorem unset_or_zero_watermark_shows_every_item:
  assumes "lastNotificationId w = None \<or> lastNotificationId w = Some 0"
  shows "fold show_if_new ns w = fold (\<lambda>n. showNotification (notif_args n)) ns w
       \<and> (permission w = ''granted'' \<longrightarrow>
            tick_displayed (Data True (Some ns)) w = map notification_id ns)
       \<and> (notification_id n = 0 \<longrightarrow>
            lastNotificationId (checkForNewNotifications (Data True (Some [n])) w) = Some 0)
       \<and> (notification_id n = 0 \<and> permission w = ''granted'' \<longrightarrow>
            displayed_ids (trace (polls (replicate k (Data True (Some [n]))) w)) =
              displayed_ids (trace w) @ replicate k 0)"
proof -
  have a: "fold show_if_new ns w = fold (\<lambda>n. showNotification (notif_args n)) ns w"
    using assms by (rule fold_show_if_new_falsy)
  have b: "tick_displayed (Data True (Some ns)) w = map notification_id ns"
    if "permission w = ''granted''"
    using that assms by (simp add: tick_displayed_eq fresh_ids_falsy)
  have c: "lastNotificationId (checkForNewNotifications (Data True (Some [n])) w) = Some 0"
    if "notification_id n = 0"
    using that by (simp add: check_watermark)
  have d: "displayed_ids (trace (polls (replicate k (Data True (Some [n]))) w)) =
             displayed_ids (trace w) @ replicate k 0"
    if "notification_id n = 0 \<and> permission w = ''granted''"
    using that assms polls_zero_item [of n w k] by blast
  show ?thesis using a b c d by blast
qed

theorem unset_or_zero_watermark_shows_every_item_witness:
  "(lastNotificationId (constructor_fields ''granted'') = None \<or>
    lastNotificationId (constructor_fields ''granted'') = Some 0)
   \<and> permission (constructor_fields ''granted'') = ''granted''
   \<and> tick_displayed
       (Data True (Some [\<lparr>notification_id = 0, title = ''a'', message = ''b'',
                           type = ''urgent'', job_id = None\<rparr>,
                         \<lparr>notification_id = - 4, title = ''c'', message = ''d'',
                           type = ''info'', job_id = Some 1\<rparr>]))
       (constructor_fields ''granted'') = [0, - 4]
   \<and> displayed_ids
       (trace
          (polls
             (replicate 3
                (Data True (Some [\<lparr>notification_id = 0, title = ''a'', message = ''b'',
                                    type = ''urgent'', job_id = None\<rparr>])))
             (constructor_fields ''granted''))) = [0, 0, 0]"
  using unset_or_zero_watermark_shows_every_item
    [of "constructor_fields ''granted''"
        "[\<lparr>notification_id = 0, title = ''a'', message = ''b'',
            type = ''urgent'', job_id = None\<rparr>,
          \<lparr>notification_id = - 4, title = ''c'', message = ''d'',
            type = ''info'', job_id = Some 1\<rparr>]"
        "\<lparr>notification_id = 0, title = ''a'', message = ''b'',
           type = ''urgent'', job_id = None\<rparr>"
        3]
  by (simp add: constructor_fields_def displayed_ids_Nil numeral_3_eq_3)

section \<open>Who writes the permission\<close>

text \<open>
  C10. The permission held by the manager is the platform's value after construction
  and the user's answer after \<open>requestPermission\<close> (unchanged when the request is
  rejected). Polls, displays, starting and stopping the monitor, manual triggers and
  timer periods never change it: after any sequence of them it is what it was.
\<close>

theorem permission_written_by_constructor_and_request_only:
  "permission (constructor p a r) = p
   \<and> permission (requestPermission (Resolved q) r w) = q
   \<and> permission (requestPermission Rejected r w) = permission w
   \<and> permission (checkForNewNotifications r w) = permission w
   \<and> permission (showNotification args w) = permission w
   \<and> permission (startMonitoring r w) = permission w
   \<and> permission (stopMonitoring w) = permission w
   \<and> permission (triggerNotification ty ttl msg j now w) = permission w
   \<and> (list_all (\<lambda>x. \<not> writes_permission x) ops \<longrightarrow>
        permission (run ops w) = permission w)"
  by (simp add: constructor_fields_simps request_permission check_fields
        showNotification_fields start_fields stop_fields trigger_fields run_permission)

theorem permission_written_by_constructor_and_request_only_witness:
  "list_all (\<lambda>x. \<not> writes_permission x)
     [CheckForNewNotifications
        (Data True (Some [\<lparr>notification_id = 2, title = ''a'', message = ''b'',
                            type = ''urgent'', job_id = None\<rparr>])),
      TriggerNotification ''info'' ''t'' ''b'' (Some 3) 99,
      StopMonitoring,
      Elapse (\<lambda>k. NetworkError)]
   \<and> permission
       (run
          [CheckForNewNotifications
             (Data True (Some [\<lparr>notification_id = 2, title = ''a'', message = ''b'',
                                 type = ''urgent'', job_id = None\<rparr>])),
           TriggerNotification ''info'' ''t'' ''b'' (Some 3) 99,
           StopMonitoring,
           Elapse (\<lambda>k. NetworkError)]
          (constructor ''granted'' True NetworkError)) = ''granted''"
  using permission_written_by_constructor_and_request_only
    [of "''granted''" True NetworkError "''granted''" "constructor ''granted'' True NetworkError"
        "\<lparr>arg_title = ''t'', arg_body = ''b'', arg_icon = None, arg_tag = None,
          arg_data = empty_data\<rparr>"
        "''info''" "''t''" "''b''" None 0
        "[CheckForNewNotifications
            (Data True (Some [\<lparr>notification_id = 2, title = ''a'', message = ''b'',
                                type = ''urgent'', job_id = None\<rparr>])),
          TriggerNotification ''info'' ''t'' ''b'' (Some 3) 99,
          StopMonitoring,
          Elapse (\<lambda>k. NetworkError)]"]
  by (simp add: constructor_fields_simps)

end
